theory Spec2Isabelle
  imports Complex_Main "HOL-Library.AList"
begin

section \<open>Tile server: coordinates, keys and paths\<close>

text \<open>
  The development embeds \<^verbatim>\<open>src/tile_server/tile_server.py\<close>: the row flip
  \<^verbatim>\<open>slippy_y_from_tms\<close>, the remote key and local cache path built by the two tile
  handlers, the blank tile fallback, and the cache cleanup loop.

  Bytes and text are both \<^typ>\<open>string\<close>. A \<^verbatim>\<open>pathlib.Path\<close> is the list of its
  components. Python integers are \<^typ>\<open>int\<close>.
\<close>

type_synonym bytes = string
type_synonym path = "string list"

subsection \<open>Python numbers and their text\<close>

text \<open>
  \<^verbatim>\<open>2 ** z\<close> is an \<^verbatim>\<open>int\<close> for \<open>z \<ge> 0\<close> and a \<^verbatim>\<open>float\<close> for \<open>z < 0\<close>, so the
  flipped row is either. A float is kept as the exact rational it denotes; binary64
  rounding and range are not modelled, so the float branch is exact only where the
  result is representable (as for \<open>z = -1\<close> and small rows).
\<close>

datatype pynum = PyInt int | PyFloat rat

definition digit_char :: "nat \<Rightarrow> char" where
  "digit_char d =
     (if d = 0 then CHR ''0'' else if d = 1 then CHR ''1'' else if d = 2 then CHR ''2''
      else if d = 3 then CHR ''3'' else if d = 4 then CHR ''4'' else if d = 5 then CHR ''5''
      else if d = 6 then CHR ''6'' else if d = 7 then CHR ''7'' else if d = 8 then CHR ''8''
      else CHR ''9'')"

function str_nat :: "nat \<Rightarrow> string" where
  "str_nat n = (if n < 10 then [digit_char n] else str_nat (n div 10) @ [digit_char (n mod 10)])"
  by pat_completeness auto
termination
  by (relation "measure id") auto

declare str_nat.simps [simp del]

definition str_int :: "int \<Rightarrow> string" where
  "str_int i = (if i < 0 then CHR ''-'' # str_nat (nat (- i)) else str_nat (nat i))"

text \<open>
  The digits after the decimal point of a fraction \<open>0 \<le> r < 1\<close>, at most \<open>n\<close> of them.
  A float's fraction is a multiple of a power of two, so its expansion ends.
\<close>

fun frac_digits :: "nat \<Rightarrow> rat \<Rightarrow> string" where
  "frac_digits 0 r = []"
| "frac_digits (Suc n) r =
     (let d = \<lfloor>r * 10\<rfloor>; r' = r * 10 - of_int d
      in digit_char (nat d) # (if r' = 0 then [] else frac_digits n r'))"

text \<open>
  \<^verbatim>\<open>str\<close> of a float, in positional notation with every digit of the exact value.
  This is what Python prints when the exact value has at most 15 significant digits
  and a magnitude between \<open>10\<^sup>-\<^sup>4\<close> and \<open>10\<^sup>1\<^sup>6\<close> (\<^verbatim>\<open>str(-0.5) == '-0.5'\<close>,
  \<^verbatim>\<open>str(2.0) == '2.0'\<close>); exponent notation and shortest-digit rounding are not
  modelled.
\<close>

definition float_str :: "rat \<Rightarrow> string" where
  "float_str q =
     (let a = \<bar>q\<bar>; i = \<lfloor>a\<rfloor>; f = a - of_int i
      in (if q < 0 then ''-'' else '''') @ str_nat (nat i) @ ''.'' @
         (if f = 0 then ''0'' else frac_digits 1074 f))"

fun py_str :: "pynum \<Rightarrow> string" where
  "py_str (PyInt i) = str_int i"
| "py_str (PyFloat q) = float_str q"

subsection \<open>Configuration\<close>

definition BUCKET :: string where
  "BUCKET = ''optimal-stargazing-locator''"

definition LAYER_PATHS :: "string \<rightharpoonup> string" where
  "LAYER_PATHS = map_of
     [(''SkyCover_Tiles'', ''data-layer-tiles/SkyCover_Tiles''),
      (''PrecipProb_Tiles'', ''data-layer-tiles/PrecipProb_Tiles''),
      (''Temp_Tiles'', ''data-layer-tiles/Temp_Tiles''),
      (''Stargazing_Tiles'', ''data-layer-tiles/Stargazing_Tiles''),
      (''LightPollution_Tiles'', ''light-pollution-data/zenith_ConUSA_colored_tiles'')]"

definition blank_tile_key :: string where
  "blank_tile_key = ''data-layer-tiles/blank_tile_256x256.png''"

definition CACHE_DIR :: path where
  "CACHE_DIR = [''tile_cache'']"

definition CACHE_EXPIRY_SECONDS :: real where
  "CACHE_EXPIRY_SECONDS = 12 * 3600"

subsection \<open>Helpers\<close>

definition s3key :: "string \<Rightarrow> string" where
  "s3key key = BUCKET @ ''/'' @ dropWhile (\<lambda>c. c = CHR ''/'') key"

definition slippy_y_from_tms :: "int \<Rightarrow> int \<Rightarrow> pynum" where
  "slippy_y_from_tms z y =
     (if 0 \<le> z then PyInt (2 ^ nat z - 1 - y)
      else PyFloat (1 / 2 ^ nat (- z) - 1 - of_int y))"

subsection \<open>Paths\<close>

text \<open>
  \<^verbatim>\<open>Path / text\<close>: the text is cut at slashes, empty pieces and single dots are
  dropped, and a text that starts with a slash replaces the path.
\<close>

fun split_slash :: "string \<Rightarrow> string list" where
  "split_slash [] = [[]]"
| "split_slash (c # cs) =
     (if c = CHR ''/'' then [] # split_slash cs
      else (case split_slash cs of [] \<Rightarrow> [[c]] | s # ss \<Rightarrow> (c # s) # ss))"

definition path_parts :: "string \<Rightarrow> string list" where
  "path_parts s = filter (\<lambda>p. p \<noteq> [] \<and> p \<noteq> ''.'') (split_slash s)"

definition joinpath :: "path \<Rightarrow> string \<Rightarrow> path" where
  "joinpath p s =
     (case s of
        [] \<Rightarrow> p
      | c # cs \<Rightarrow> if c = CHR ''/'' then ''/'' # path_parts s else p @ path_parts s)"

definition parent :: "path \<Rightarrow> path" where
  "parent p = butlast p"


subsection \<open>Requests, remote key and local path\<close>

text \<open>
  The five route parameters of \<^verbatim>\<open>/tiles/{layer}/{timestamp}/{z}/{x}/{y}.png\<close>;
  \<open>zoom\<close>, \<open>col\<close> and \<open>row\<close> are the handler's \<^verbatim>\<open>z\<close>, \<^verbatim>\<open>x\<close> and \<^verbatim>\<open>y\<close>.
\<close>

record tile_request =
  layer :: string
  timestamp :: string
  zoom :: int
  col :: int
  row :: int

text \<open>
  The key expression of both handlers; \<open>prefix\<close> is \<^verbatim>\<open>LAYER_PATHS[layer]\<close>.
\<close>

definition tile_key :: "string \<Rightarrow> tile_request \<Rightarrow> pynum \<Rightarrow> string" where
  "tile_key prefix rq slippy_y =
     (if layer rq = ''LightPollution_Tiles'' \<and> timestamp rq = ''static''
      then prefix @ ''/'' @ str_int (zoom rq) @ ''/'' @ str_int (col rq) @ ''/'' @
           py_str slippy_y @ ''.png''
      else prefix @ ''/'' @ timestamp rq @ ''/'' @ str_int (zoom rq) @ ''/'' @
           str_int (col rq) @ ''/'' @ py_str slippy_y @ ''.png'')"

text \<open>
  \<^verbatim>\<open>CACHE_DIR / layer / timestamp / str(z) / str(x) / f"{slippy_y}.png"\<close>
\<close>

definition local_path_of :: "tile_request \<Rightarrow> pynum \<Rightarrow> path" where
  "local_path_of rq slippy_y =
     joinpath (joinpath (joinpath (joinpath (joinpath CACHE_DIR (layer rq)) (timestamp rq))
       (str_int (zoom rq))) (str_int (col rq))) (py_str slippy_y @ ''.png'')"


section \<open>Disk, remote store and handlers\<close>

subsection \<open>The world the handlers act on\<close>

text \<open>
  The local disk holds regular files (content and modification time) and directories.
  Files are an association list, so that the cleanup can enumerate them. The calls made
  to the remote store and the lines given to the logger are recorded in order.
\<close>

record cache_file =
  content :: bytes
  mtime :: real

datatype remote_call = Get string | Exists string

datatype log_entry =
    Invalid_layer string
  | Invalid_layer_requested string
  | Tile_found_locally path
  | HEAD_failed string
  | Tile_miss string
  | Cached_blank_tile
  | Failed_to_fetch_blank_tile string
  | Failed_to_delete path
  | Cleanup_complete nat

record world =
  files :: "(path \<times> cache_file) list"
  dirs :: "path list"
  remote_calls :: "remote_call list"
  logged :: "log_entry list"

text \<open>
  What is outside the program: the remote bucket (\<^verbatim>\<open>fs.get\<close> finds an object, finds
  none, or fails; \<^verbatim>\<open>fs.exists\<close> answers or fails with \<open>None\<close>), the local faults
  (a write, a \<^verbatim>\<open>mkdir\<close> or an \<^verbatim>\<open>unlink\<close> that raises), the modification time the
  system reports for a directory, and the clock.

  A write that raises leaves the path as it was, and \<^verbatim>\<open>fs.get\<close> writes the local file
  only once the object has been found. The handlers run one at a time. Times are real
  numbers of seconds; the rounding of \<^verbatim>\<open>now - st_mtime\<close> is not modelled.
\<close>

datatype remote_result = RemoteOk bytes | RemoteMiss | RemoteError

record env =
  remote_get :: "string \<Rightarrow> remote_result"
  remote_exists :: "string \<Rightarrow> bool option"
  write_fault :: "path \<Rightarrow> bool"
  mkdir_fault :: "path \<Rightarrow> bool"
  unlink_fault :: "path \<Rightarrow> bool"
  dir_mtime :: "path \<Rightarrow> real"
  clock :: real

text \<open>A response is its status and its body; headers and media type are left out.\<close>

record response =
  status_code :: nat
  body :: bytes

text \<open>An exception that leaves a handler; the framework answers it with status 500.\<close>

datatype fault = OSError | TypeError

definition log_line :: "log_entry \<Rightarrow> world \<Rightarrow> world" where
  "log_line e w = w\<lparr>logged := logged w @ [e]\<rparr>"

text \<open>
  \<^verbatim>\<open>open(p, "rb")\<close> and \<^verbatim>\<open>p.read_bytes()\<close>: the bytes of the file, \<open>None\<close> when
  there is no file. \<^verbatim>\<open>p.exists()\<close> on a tile path is \<open>open_rb w p \<noteq> None\<close>: tile paths
  end in \<^verbatim>\<open>.png\<close> and the handlers make no directory of such a name at their depth.
\<close>

definition open_rb :: "world \<Rightarrow> path \<Rightarrow> bytes option" where
  "open_rb w p = map_option content (map_of (files w) p)"

definition write_file :: "real \<Rightarrow> path \<Rightarrow> bytes \<Rightarrow> world \<Rightarrow> world" where
  "write_file t p b w = w\<lparr>files := AList.update p \<lparr>content = b, mtime = t\<rparr> (files w)\<rparr>"

text \<open>\<^verbatim>\<open>d.mkdir(parents=True, exist_ok=True)\<close>: \<open>d\<close> and each ancestor that is missing.\<close>

definition dir_chain :: "path \<Rightarrow> path list" where
  "dir_chain d = map (\<lambda>n. take n d) [1..<Suc (length d)]"

definition mkdir_parents :: "env \<Rightarrow> path \<Rightarrow> world \<Rightarrow> world option" where
  "mkdir_parents env d w =
     (if mkdir_fault env d then None
      else Some (w\<lparr>dirs := fold List.insert (dir_chain d) (dirs w)\<rparr>))"

text \<open>
  \<^verbatim>\<open>fs.get(rpath, lpath)\<close>: one call to the remote store; \<open>True\<close> when the object is
  now at \<open>lpath\<close>, \<open>False\<close> when the call raised.
\<close>

definition fs_get :: "env \<Rightarrow> string \<Rightarrow> path \<Rightarrow> world \<Rightarrow> bool \<times> world" where
  "fs_get env rpath lpath w =
     (let w1 = w\<lparr>remote_calls := remote_calls w @ [Get rpath]\<rparr>
      in case remote_get env rpath of
           RemoteOk b \<Rightarrow>
             if write_fault env lpath then (False, w1)
             else (True, write_file (clock env) lpath b w1)
         | RemoteMiss \<Rightarrow> (False, w1)
         | RemoteError \<Rightarrow> (False, w1))"

definition fs_exists :: "env \<Rightarrow> string \<Rightarrow> world \<Rightarrow> bool option \<times> world" where
  "fs_exists env rpath w =
     (remote_exists env rpath, w\<lparr>remote_calls := remote_calls w @ [Exists rpath]\<rparr>)"

subsection \<open>Blank tile fallback\<close>

definition blank_tile_path :: path where
  "blank_tile_path = joinpath CACHE_DIR ''blank_tile.png''"

text \<open>
  The second \<^verbatim>\<open>try\<close> of \<^verbatim>\<open>serve_blank_tile\<close>: make the directories, read the blank
  tile, write it at \<open>cache_path\<close>; whatever raises is passed over.
\<close>

definition persist_blank :: "env \<Rightarrow> path \<Rightarrow> world \<Rightarrow> world" where
  "persist_blank env cache_path w =
     (case mkdir_parents env (parent cache_path) w of
        None \<Rightarrow> w
      | Some w1 \<Rightarrow>
          (case open_rb w1 blank_tile_path of
             None \<Rightarrow> w1
           | Some b \<Rightarrow>
               if write_fault env cache_path then w1
               else write_file (clock env) cache_path b w1))"

definition serve_blank_tile :: "env \<Rightarrow> path \<Rightarrow> world \<Rightarrow> (fault + response) \<times> world" where
  "serve_blank_tile env cache_path w =
     (let (have_blank, w1) =
            (if open_rb w blank_tile_path = None then
               (case fs_get env (s3key blank_tile_key) blank_tile_path w of
                  (True, w') \<Rightarrow> (True, log_line Cached_blank_tile w')
                | (False, w') \<Rightarrow>
                    (False, log_line (Failed_to_fetch_blank_tile blank_tile_key) w'))
             else (True, w))
      in if \<not> have_blank
         then (Inr \<lparr>status_code = 500, body = ''Tile and fallback missing''\<rparr>, w1)
         else
           (let w2 = persist_blank env cache_path w1
            in case open_rb w2 blank_tile_path of
                 None \<Rightarrow> (Inl OSError, w2)
               | Some b \<Rightarrow> (Inr \<lparr>status_code = 200, body = b\<rparr>, w2)))"

subsection \<open>Tile handlers\<close>

definition head_tile_with_timestamp :: "env \<Rightarrow> tile_request \<Rightarrow> world \<Rightarrow> response \<times> world" where
  "head_tile_with_timestamp env rq w =
     (case LAYER_PATHS (layer rq) of
        None \<Rightarrow>
          (\<lparr>status_code = 404, body = ''Layer not found''\<rparr>,
           log_line (Invalid_layer (layer rq)) w)
      | Some prefix \<Rightarrow>
          (let slippy_y = slippy_y_from_tms (zoom rq) (row rq);
               local_path = local_path_of rq slippy_y
           in if open_rb w local_path \<noteq> None
              then (\<lparr>status_code = 200, body = []\<rparr>,
                    log_line (Tile_found_locally local_path) w)
              else
                (let key = tile_key prefix rq slippy_y
                 in case fs_exists env (s3key key) w of
                      (Some exists, w1) \<Rightarrow>
                        (\<lparr>status_code = (if exists then 200 else 404), body = []\<rparr>, w1)
                    | (None, w1) \<Rightarrow>
                        (\<lparr>status_code = 404, body = []\<rparr>, log_line (HEAD_failed key) w1))))"

text \<open>
  \<^verbatim>\<open>return await serve_blank_tile(local_path)\<close>: \<^verbatim>\<open>serve_blank_tile\<close> is declared
  with \<^verbatim>\<open>def\<close>, not \<^verbatim>\<open>async def\<close>, so the call runs to its end and gives a
  response object, to which \<^verbatim>\<open>await\<close> is then applied. A response object has no
  \<^verbatim>\<open>__await__\<close>, and the \<^verbatim>\<open>await\<close> expression raises \<^verbatim>\<open>TypeError\<close>.
\<close>

definition await_response :: "response \<Rightarrow> fault + response" where
  "await_response r = Inl TypeError"

definition get_tile_with_timestamp ::
  "env \<Rightarrow> tile_request \<Rightarrow> world \<Rightarrow> (fault + response) \<times> world" where
  "get_tile_with_timestamp env rq w =
     (case LAYER_PATHS (layer rq) of
        None \<Rightarrow>
          (Inr \<lparr>status_code = 404, body = ''Layer not found''\<rparr>,
           log_line (Invalid_layer_requested (layer rq)) w)
      | Some prefix \<Rightarrow>
          (let slippy_y = slippy_y_from_tms (zoom rq) (row rq);
               local_path = local_path_of rq slippy_y
           in case mkdir_parents env (parent local_path) w of
                None \<Rightarrow> (Inl OSError, w)
              | Some w1 \<Rightarrow>
                  (case open_rb w1 local_path of
                     Some b \<Rightarrow> (Inr \<lparr>status_code = 200, body = b\<rparr>, w1)
                   | None \<Rightarrow>
                       (let key = tile_key prefix rq slippy_y;
                            (got, w2) = fs_get env (s3key key) local_path w1
                        in case (if got then open_rb w2 local_path else None) of
                             Some b \<Rightarrow> (Inr \<lparr>status_code = 200, body = b\<rparr>, w2)
                           | None \<Rightarrow>
                               (case serve_blank_tile env local_path
                                       (log_line (Tile_miss key) w2) of
                                  (Inl e, w3) \<Rightarrow> (Inl e, w3)
                                | (Inr r, w3) \<Rightarrow> (await_response r, w3))))))"

text \<open>The routes without a timestamp.\<close>

definition head_tile_static :: "env \<Rightarrow> string \<Rightarrow> int \<Rightarrow> int \<Rightarrow> int \<Rightarrow> world \<Rightarrow> response \<times> world" where
  "head_tile_static env l zz xx yy w =
     head_tile_with_timestamp env
       \<lparr>layer = l, timestamp = ''static'', zoom = zz, col = xx, row = yy\<rparr> w"

definition get_tile_static ::
  "env \<Rightarrow> string \<Rightarrow> int \<Rightarrow> int \<Rightarrow> int \<Rightarrow> world \<Rightarrow> (fault + response) \<times> world" where
  "get_tile_static env l zz xx yy w =
     get_tile_with_timestamp env
       \<lparr>layer = l, timestamp = ''static'', zoom = zz, col = xx, row = yy\<rparr> w"

subsection \<open>Cache cleanup\<close>

definition ends_with :: "string \<Rightarrow> string \<Rightarrow> bool" where
  "ends_with sfx s \<longleftrightarrow> length sfx \<le> length s \<and> drop (length s - length sfx) s = sfx"

text \<open>
  \<^verbatim>\<open>CACHE_DIR.rglob("*.png")\<close>: every file and directory below the cache root whose
  name ends in \<^verbatim>\<open>.png\<close>.
\<close>

definition rglob_png :: "world \<Rightarrow> path list" where
  "rglob_png w =
     filter (\<lambda>p. length CACHE_DIR < length p \<and> take (length CACHE_DIR) p = CACHE_DIR \<and>
                  ends_with ''.png'' (last p))
       (map fst (files w) @ dirs w)"

definition stat_mtime :: "env \<Rightarrow> world \<Rightarrow> path \<Rightarrow> real option" where
  "stat_mtime env w p =
     (case map_of (files w) p of
        Some f \<Rightarrow> Some (mtime f)
      | None \<Rightarrow> if p \<in> set (dirs w) then Some (dir_mtime env p) else None)"

text \<open>\<^verbatim>\<open>tile.unlink()\<close> removes a regular file and raises on anything else.\<close>

definition unlink :: "env \<Rightarrow> path \<Rightarrow> world \<Rightarrow> world option" where
  "unlink env p w =
     (if map_of (files w) p = None \<or> unlink_fault env p then None
      else Some (w\<lparr>files := AList.delete p (files w)\<rparr>))"

text \<open>The body of the \<^verbatim>\<open>for\<close> loop, on the world and the count of deleted tiles.\<close>

fun cleanup_tile :: "env \<Rightarrow> real \<Rightarrow> path \<Rightarrow> world \<times> nat \<Rightarrow> world \<times> nat" where
  "cleanup_tile env now tile (w, deleted) =
     (case stat_mtime env w tile of
        None \<Rightarrow> (log_line (Failed_to_delete tile) w, deleted)
      | Some m \<Rightarrow>
          if now - m > CACHE_EXPIRY_SECONDS then
            (case unlink env tile w of
               None \<Rightarrow> (log_line (Failed_to_delete tile) w, deleted)
             | Some w' \<Rightarrow> (w', deleted + 1))
          else (w, deleted))"

primrec cleanup_tiles :: "env \<Rightarrow> real \<Rightarrow> path list \<Rightarrow> world \<times> nat \<Rightarrow> world \<times> nat" where
  "cleanup_tiles env now [] acc = acc"
| "cleanup_tiles env now (tile # tiles) acc =
     cleanup_tiles env now tiles (cleanup_tile env now tile acc)"

text \<open>One round of the \<^verbatim>\<open>while True\<close> loop, up to the sleep.\<close>

definition cleanup_round :: "env \<Rightarrow> world \<Rightarrow> world" where
  "cleanup_round env w =
     (let now = clock env;
          (w', deleted) = cleanup_tiles env now (rglob_png w) (w, 0)
      in log_line (Cleanup_complete deleted) w')"

text \<open>
  \<^verbatim>\<open>periodic_cache_cleanup\<close> never returns; its first \<open>n\<close> rounds, round \<open>i\<close> in the
  environment \<open>envs i\<close>.
\<close>

primrec periodic_cache_cleanup :: "nat \<Rightarrow> (nat \<Rightarrow> env) \<Rightarrow> world \<Rightarrow> world" where
  "periodic_cache_cleanup 0 envs w = w"
| "periodic_cache_cleanup (Suc n) envs w =
     periodic_cache_cleanup n (\<lambda>i. envs (Suc i)) (cleanup_round (envs 0) w)"

section \<open>The names of the specification\<close>

text \<open>
  The cache path of a request is the local path the handlers build, below the cache
  root; its canonical key is the key they build, for a layer of the registry.
\<close>

definition CachePath :: "tile_request \<Rightarrow> path" where
  "CachePath rq =
     drop (length CACHE_DIR) (local_path_of rq (slippy_y_from_tms (zoom rq) (row rq)))"

definition CanonicalKey :: "tile_request \<Rightarrow> string option" where
  "CanonicalKey rq =
     (case LAYER_PATHS (layer rq) of
        None \<Rightarrow> None
      | Some prefix \<Rightarrow> Some (tile_key prefix rq (slippy_y_from_tms (zoom rq) (row rq))))"


definition resolveExists :: "env \<Rightarrow> tile_request \<Rightarrow> world \<Rightarrow> bool" where
  "resolveExists env rq w \<longleftrightarrow> status_code (fst (head_tile_with_timestamp env rq w)) = 200"

text \<open>
  The placeholder as \<^verbatim>\<open>serve_blank_tile\<close> obtains it: the local copy if there is
  one, else the remote object, which has to be written to the local copy.
\<close>

definition placeholder_bytes :: "env \<Rightarrow> world \<Rightarrow> bytes option" where
  "placeholder_bytes env w =
     (case open_rb w blank_tile_path of
        Some b \<Rightarrow> Some b
      | None \<Rightarrow>
          (case remote_get env (s3key blank_tile_key) of
             RemoteOk b \<Rightarrow> if write_fault env blank_tile_path then None else Some b
           | RemoteMiss \<Rightarrow> None
           | RemoteError \<Rightarrow> None))"

text \<open>
  A cache entry: a regular file below the cache root whose name ends in \<^verbatim>\<open>.png\<close>.
  It is expired at a time when its age is above the retention threshold.
\<close>

definition cache_entry :: "world \<Rightarrow> path \<Rightarrow> cache_file \<Rightarrow> bool" where
  "cache_entry w p f \<longleftrightarrow>
     map_of (files w) p = Some f \<and> length CACHE_DIR < length p \<and>
     take (length CACHE_DIR) p = CACHE_DIR \<and> ends_with ''.png'' (last p)"

definition expired :: "real \<Rightarrow> world \<Rightarrow> path \<Rightarrow> bool" where
  "expired now w p \<longleftrightarrow>
     (case map_of (files w) p of
        None \<Rightarrow> False
      | Some f \<Rightarrow> now - mtime f > CACHE_EXPIRY_SECONDS)"

section \<open>Concrete worlds and environments\<close>

text \<open>
  The world after the module is loaded (\<^verbatim>\<open>CACHE_DIR.mkdir(exist_ok=True)\<close>), and an
  environment in which nothing local fails.
\<close>

definition fresh_world :: world where
  "fresh_world = \<lparr>files = [], dirs = [CACHE_DIR], remote_calls = [], logged = []\<rparr>"

definition no_faults ::
  "(string \<Rightarrow> remote_result) \<Rightarrow> (string \<Rightarrow> bool option) \<Rightarrow> real \<Rightarrow> env" where
  "no_faults g e t =
     \<lparr>remote_get = g, remote_exists = e, write_fault = (\<lambda>p. False),
      mkdir_fault = (\<lambda>p. False), unlink_fault = (\<lambda>p. False), dir_mtime = (\<lambda>p. 0),
      clock = t\<rparr>"

text \<open>The request of the specification's scenario, and its local path.\<close>

definition sky_request :: tile_request where
  "sky_request =
     \<lparr>layer = ''SkyCover_Tiles'', timestamp = ''2025062818'', zoom = 3, col = 2, row = 5\<rparr>"

definition sky_path :: path where
  "sky_path = [''tile_cache'', ''SkyCover_Tiles'', ''2025062818'', ''3'', ''2'', ''2.png'']"


text \<open>
  A bucket that holds the blank tile and no other object; a bucket that cannot be
  reached; and the world that the first leaves behind after a request for a missing
  tile.
\<close>

definition miss_env :: env where
  "miss_env = no_faults
     (\<lambda>k. if k = ''optimal-stargazing-locator/data-layer-tiles/blank_tile_256x256.png''
          then RemoteOk ''blank'' else RemoteMiss)
     (\<lambda>k. Some False) 100"

definition down_env :: env where
  "down_env = no_faults (\<lambda>k. RemoteError) (\<lambda>k. None) 200"

definition poisoned_world :: world where
  "poisoned_world =
     \<lparr>files = [([''tile_cache'', ''blank_tile.png''], \<lparr>content = ''blank'', mtime = 100\<rparr>),
               (sky_path, \<lparr>content = ''blank'', mtime = 100\<rparr>)],
      dirs = [[''tile_cache'', ''SkyCover_Tiles'', ''2025062818'', ''3'', ''2''],
              [''tile_cache'', ''SkyCover_Tiles'', ''2025062818'', ''3''],
              [''tile_cache'', ''SkyCover_Tiles'', ''2025062818''],
              [''tile_cache'', ''SkyCover_Tiles''],
              [''tile_cache'']],
      remote_calls =
        [Get ''optimal-stargazing-locator/data-layer-tiles/SkyCover_Tiles/2025062818/3/2/2.png'',
         Get ''optimal-stargazing-locator/data-layer-tiles/blank_tile_256x256.png''],
      logged = [Tile_miss ''data-layer-tiles/SkyCover_Tiles/2025062818/3/2/2.png'',
                Cached_blank_tile]\<rparr>"

text \<open>
  Three entries at hour 13: one written at hour 0, one at hour 12, and one written at
  hour 0 that cannot be unlinked.
\<close>

definition sweep_world :: world where
  "sweep_world =
     \<lparr>files =
        [([''tile_cache'', ''Temp_Tiles'', ''2025062818'', ''3'', ''2'', ''2.png''],
          \<lparr>content = ''old'', mtime = 0\<rparr>),
         ([''tile_cache'', ''Temp_Tiles'', ''2025062818'', ''3'', ''2'', ''3.png''],
          \<lparr>content = ''young'', mtime = 12 * 3600\<rparr>),
         ([''tile_cache'', ''Temp_Tiles'', ''2025062818'', ''3'', ''2'', ''4.png''],
          \<lparr>content = ''stuck'', mtime = 0\<rparr>)],
      dirs = [[''tile_cache'']], remote_calls = [], logged = []\<rparr>"

definition sweep_env :: env where
  "sweep_env =
     \<lparr>remote_get = (\<lambda>k. RemoteMiss), remote_exists = (\<lambda>k. None),
      write_fault = (\<lambda>p. False), mkdir_fault = (\<lambda>p. False),
      unlink_fault =
        (\<lambda>p. p = [''tile_cache'', ''Temp_Tiles'', ''2025062818'', ''3'', ''2'', ''4.png'']),
      dir_mtime = (\<lambda>p. 0), clock = 13 * 3600\<rparr>"

text \<open>A request with a negative zoom, and one whose row is beyond the last row.\<close>

definition neg_request :: tile_request where
  "neg_request =
     \<lparr>layer = ''SkyCover_Tiles'', timestamp = ''2025062818'', zoom = - 1, col = 0, row = 0\<rparr>"

definition far_request :: tile_request where
  "far_request =
     \<lparr>layer = ''SkyCover_Tiles'', timestamp = ''2025062818'', zoom = 3, col = 2, row = 8\<rparr>"

section \<open>Properties\<close>

subsection \<open>Text of numbers and path components\<close>








subsection \<open>Row flip\<close>

text \<open>
  Claim C5. For a zoom \<open>z \<ge> 0\<close> and a row in \<open>[0, 2\<^sup>z)\<close>, the flipped row is an integer
  of the same range, and flipping it again gives the row back.
\<close>

theorem slippy_involution:
  "0 \<le> zz \<Longrightarrow> 0 \<le> r \<Longrightarrow> r < 2 ^ nat zz \<Longrightarrow>
   \<exists>r'. slippy_y_from_tms zz r = PyInt r' \<and> 0 \<le> r' \<and> r' < 2 ^ nat zz \<and>
        slippy_y_from_tms zz r' = PyInt r"
  by (simp add: slippy_y_from_tms_def)

theorem slippy_involution_witness:
  "(0::int) \<le> 3 \<and> (0::int) \<le> 5 \<and> (5::int) < 2 ^ nat 3 \<and>
   slippy_y_from_tms 3 5 = PyInt 2 \<and> slippy_y_from_tms 3 2 = PyInt 5"
  using slippy_involution [of 3 5] by (simp add: slippy_y_from_tms_def)

subsection \<open>Keys and paths\<close>

text \<open>
  Claim C4. For a request whose layer is in the registry, the canonical key is the
  prefix followed by zoom, column and flipped row, with no timestamp, exactly when
  the layer is \<^verbatim>\<open>LightPollution_Tiles\<close> and the timestamp is \<^verbatim>\<open>static\<close>. For any other
  layer, and for any other timestamp, the timestamp stands between the prefix and the
  zoom, also when it is \<^verbatim>\<open>static\<close>.
\<close>

theorem canonical_key_timestamp:
  assumes "LAYER_PATHS (layer rq) = Some prefix"
  defines "rest \<equiv> str_int (zoom rq) @ ''/'' @ str_int (col rq) @ ''/'' @
                  py_str (slippy_y_from_tms (zoom rq) (row rq)) @ ''.png''"
  shows "(CanonicalKey rq = Some (prefix @ ''/'' @ rest) \<longleftrightarrow>
            layer rq = ''LightPollution_Tiles'' \<and> timestamp rq = ''static'') \<and>
         (layer rq \<noteq> ''LightPollution_Tiles'' \<longrightarrow>
            CanonicalKey rq = Some (prefix @ ''/'' @ timestamp rq @ ''/'' @ rest)) \<and>
         (timestamp rq \<noteq> ''static'' \<longrightarrow>
            CanonicalKey rq = Some (prefix @ ''/'' @ timestamp rq @ ''/'' @ rest))"
proof -
  have "length (timestamp rq @ ''/'' @ rest) \<noteq> length rest" by simp
  then have "timestamp rq @ ''/'' @ rest \<noteq> rest" by metis
  with assms(1) show ?thesis
    by (auto simp add: CanonicalKey_def tile_key_def rest_def)
qed

theorem canonical_key_timestamp_witness:
  "CanonicalKey \<lparr>layer = ''LightPollution_Tiles'', timestamp = ''static'', zoom = 3, col = 2, row = 5\<rparr>
     = Some ''light-pollution-data/zenith_ConUSA_colored_tiles/3/2/2.png'' \<and>
   CanonicalKey \<lparr>layer = ''SkyCover_Tiles'', timestamp = ''static'', zoom = 3, col = 2, row = 5\<rparr>
     = Some ''data-layer-tiles/SkyCover_Tiles/static/3/2/2.png''"
proof -
  let ?a = "\<lparr>layer = ''LightPollution_Tiles'', timestamp = ''static'', zoom = 3, col = 2, row = 5\<rparr>"
  let ?b = "\<lparr>layer = ''SkyCover_Tiles'', timestamp = ''static'', zoom = 3, col = 2, row = 5\<rparr>"
  have pa: "LAYER_PATHS (layer ?a) = Some ''light-pollution-data/zenith_ConUSA_colored_tiles''"
    by (simp add: LAYER_PATHS_def)
  have pb: "LAYER_PATHS (layer ?b) = Some ''data-layer-tiles/SkyCover_Tiles''"
    by (simp add: LAYER_PATHS_def)
  show ?thesis
    using canonical_key_timestamp [OF pa] canonical_key_timestamp [OF pb]
    by (simp add: slippy_y_from_tms_def str_int_def str_nat.simps digit_char_def)
qed



text \<open>
  The timestamp has to be a path component for this: a timestamp that is a single dot
  is dropped from the local path.
\<close>

lemma dot_timestamp_dropped:
  "CachePath \<lparr>layer = ''SkyCover_Tiles'', timestamp = ''.'', zoom = 3, col = 2, row = 5\<rparr> =
     [''SkyCover_Tiles'', ''3'', ''2'', ''2.png'']"
  by (simp add: CachePath_def local_path_of_def slippy_y_from_tms_def joinpath_def
      path_parts_def str_int_def str_nat.simps digit_char_def CACHE_DIR_def)

subsection \<open>Effects of the operations on the disk\<close>



lemma open_rb_dirs [simp]: "open_rb (w\<lparr>dirs := d\<rparr>) p = open_rb w p"
  by (simp add: open_rb_def)

lemma open_rb_remote_calls [simp]: "open_rb (w\<lparr>remote_calls := c\<rparr>) p = open_rb w p"
  by (simp add: open_rb_def)

lemma open_rb_log_line [simp]: "open_rb (log_line e w) p = open_rb w p"
  by (simp add: open_rb_def log_line_def)

lemma open_rb_write_file [simp]:
  "open_rb (write_file t p b w) q = (if q = p then Some b else open_rb w q)"
  by (simp add: open_rb_def write_file_def update_conv')

lemma dirs_log_line [simp]: "dirs (log_line e w) = dirs w"
  by (simp add: log_line_def)






subsection \<open>The scenario request, evaluated\<close>

lemma sky_layer: "LAYER_PATHS (layer sky_request) = Some ''data-layer-tiles/SkyCover_Tiles''"
  by (simp add: sky_request_def LAYER_PATHS_def)

lemma sky_local_path:
  "local_path_of sky_request (slippy_y_from_tms (zoom sky_request) (row sky_request)) = sky_path"
  by (simp add: sky_request_def sky_path_def local_path_of_def slippy_y_from_tms_def
      joinpath_def path_parts_def str_int_def str_nat.simps digit_char_def CACHE_DIR_def)

lemma sky_tile_key:
  "tile_key ''data-layer-tiles/SkyCover_Tiles'' sky_request
     (slippy_y_from_tms (zoom sky_request) (row sky_request)) =
   ''data-layer-tiles/SkyCover_Tiles/2025062818/3/2/2.png''"
  by (simp add: tile_key_def sky_request_def slippy_y_from_tms_def
      str_int_def str_nat.simps digit_char_def)

lemma sky_chain:
  "dir_chain (parent sky_path) =
     [[''tile_cache''], [''tile_cache'', ''SkyCover_Tiles''],
      [''tile_cache'', ''SkyCover_Tiles'', ''2025062818''],
      [''tile_cache'', ''SkyCover_Tiles'', ''2025062818'', ''3''],
      [''tile_cache'', ''SkyCover_Tiles'', ''2025062818'', ''3'', ''2'']]"
  by (simp add: dir_chain_def parent_def sky_path_def
      upt_rec [of _ "Suc _"] upt_rec [of _ "numeral _"])

lemma blank_path: "blank_tile_path = [''tile_cache'', ''blank_tile.png'']"
  by (simp add: blank_tile_path_def joinpath_def path_parts_def CACHE_DIR_def)

lemma float_str_half: "float_str (- (1 / 2)) = ''-0.5''"
  by code_simp

subsection \<open>Unknown layers\<close>

text \<open>
  Claim C7. For a request whose layer is not in the registry, the GET handler answers
  404 \<^verbatim>\<open>Layer not found\<close> and the HEAD handler answers 404, so that the tile does not
  exist for the caller; neither handler calls the remote store, and neither raises.
\<close>

theorem unknown_layer_not_found:
  assumes "LAYER_PATHS (layer rq) = None"
  shows "get_tile_with_timestamp env rq w =
           (Inr \<lparr>status_code = 404, body = ''Layer not found''\<rparr>,
            log_line (Invalid_layer_requested (layer rq)) w) \<and>
         head_tile_with_timestamp env rq w =
           (\<lparr>status_code = 404, body = ''Layer not found''\<rparr>,
            log_line (Invalid_layer (layer rq)) w) \<and>
         \<not> resolveExists env rq w \<and>
         remote_calls (snd (get_tile_with_timestamp env rq w)) = remote_calls w \<and>
         remote_calls (snd (head_tile_with_timestamp env rq w)) = remote_calls w"
  using assms
  by (simp add: get_tile_with_timestamp_def head_tile_with_timestamp_def resolveExists_def
      log_line_def)

theorem unknown_layer_not_found_witness:
  "LAYER_PATHS ''unknown_layer'' = None \<and>
   fst (get_tile_with_timestamp miss_env
      \<lparr>layer = ''unknown_layer'', timestamp = ''2025062818'', zoom = 3, col = 2, row = 5\<rparr>
      fresh_world)
     = Inr \<lparr>status_code = 404, body = ''Layer not found''\<rparr> \<and>
   \<not> resolveExists miss_env
      \<lparr>layer = ''unknown_layer'', timestamp = ''2025062818'', zoom = 3, col = 2, row = 5\<rparr>
      fresh_world"
proof -
  let ?rq = "\<lparr>layer = ''unknown_layer'', timestamp = ''2025062818'', zoom = 3, col = 2, row = 5\<rparr>"
  have n: "LAYER_PATHS (layer ?rq) = None"
    by (simp add: LAYER_PATHS_def)
  show ?thesis
    using n unknown_layer_not_found [OF n, of miss_env fresh_world] by simp
qed

subsection \<open>Existence check\<close>



subsection \<open>Directories made by the GET handler\<close>




subsection \<open>Cleanup\<close>

lemma cleanup_tile_files:
  "map_of (files (fst (cleanup_tile env now t (w, n)))) p =
     (if p = t \<and> expired now w t \<and> \<not> unlink_fault env t then None else map_of (files w) p)"
  by (auto simp add: expired_def stat_mtime_def unlink_def log_line_def delete_conv'
      split: option.splits)

lemma cleanup_tile_logged:
  "set (logged w) \<subseteq> set (logged (fst (cleanup_tile env now t (w, n))))"
  by (auto simp add: stat_mtime_def unlink_def log_line_def split: option.splits)

lemma cleanup_tile_fault_logged:
  "expired now w t \<Longrightarrow> unlink_fault env t \<Longrightarrow>
   Failed_to_delete t \<in> set (logged (fst (cleanup_tile env now t (w, n))))"
  by (auto simp add: expired_def stat_mtime_def unlink_def log_line_def split: option.splits)

text \<open>
  After the loop over any list of paths, a file is gone exactly when it was listed,
  expired, and its \<^verbatim>\<open>unlink\<close> did not raise; what happens at one path does not
  depend on the others.
\<close>

lemma cleanup_tiles_files:
  "map_of (files (fst (cleanup_tiles env now ts (w, n)))) p =
     (if p \<in> set ts \<and> expired now w p \<and> \<not> unlink_fault env p then None
      else map_of (files w) p)"
proof (induction ts arbitrary: w n)
  case Nil
  then show ?case by simp
next
  case (Cons t ts)
  obtain w1 n1 where s: "cleanup_tile env now t (w, n) = (w1, n1)"
    by (cases "cleanup_tile env now t (w, n)")
  have f1: "map_of (files w1) q =
     (if q = t \<and> expired now w t \<and> \<not> unlink_fault env t then None else map_of (files w) q)"
    for q
    using cleanup_tile_files [of env now t w n q] s by simp
  have e1: "expired now w1 p \<longleftrightarrow> expired now w p \<and> \<not> (p = t \<and> \<not> unlink_fault env t)"
    by (auto simp add: expired_def f1 split: option.splits)
  show ?case
    using Cons.IH [of w1 n1] s by (auto simp add: f1 e1 expired_def)
qed

lemma cleanup_tiles_logged:
  "set (logged w) \<subseteq> set (logged (fst (cleanup_tiles env now ts (w, n))))"
proof (induction ts arbitrary: w n)
  case Nil
  then show ?case by simp
next
  case (Cons t ts)
  obtain w1 n1 where s: "cleanup_tile env now t (w, n) = (w1, n1)"
    by (cases "cleanup_tile env now t (w, n)")
  with cleanup_tile_logged [of w env now t n] Cons.IH [of w1 n1] show ?case by auto
qed

lemma cleanup_tiles_fault_logged:
  "p \<in> set ts \<Longrightarrow> expired now w p \<Longrightarrow> unlink_fault env p \<Longrightarrow>
   Failed_to_delete p \<in> set (logged (fst (cleanup_tiles env now ts (w, n))))"
proof (induction ts arbitrary: w n)
  case Nil
  then show ?case by simp
next
  case (Cons t ts)
  obtain w1 n1 where s: "cleanup_tile env now t (w, n) = (w1, n1)"
    by (cases "cleanup_tile env now t (w, n)")
  show ?case
  proof (cases "p = t")
    case True
    with Cons.prems cleanup_tile_fault_logged [of now w t env n] s
    have "Failed_to_delete p \<in> set (logged w1)" by simp
    with cleanup_tiles_logged [of w1 env now ts n1] s show ?thesis by auto
  next
    case False
    with Cons.prems have pin: "p \<in> set ts" by simp
    have "map_of (files w1) p = map_of (files w) p"
      using cleanup_tile_files [of env now t w n p] s False by simp
    with Cons.prems have "expired now w1 p" by (simp add: expired_def)
    from Cons.IH [OF pin this Cons.prems(3), of n1] s show ?thesis by simp
  qed
qed

lemma cache_entry_rglob: "cache_entry w p f \<Longrightarrow> p \<in> set (rglob_png w)"
  by (auto simp add: cache_entry_def rglob_png_def dest!: map_of_SomeD
      intro!: image_eqI [where x = "(p, f)"])

lemma cleanup_round_files:
  "map_of (files (cleanup_round env w)) p =
     (if p \<in> set (rglob_png w) \<and> expired (clock env) w p \<and> \<not> unlink_fault env p then None
      else map_of (files w) p)"
  using cleanup_tiles_files [of env "clock env" "rglob_png w" w 0 p]
  by (simp add: cleanup_round_def Let_def log_line_def case_prod_beta)

lemma cleanup_round_logged:
  "p \<in> set (rglob_png w) \<Longrightarrow> expired (clock env) w p \<Longrightarrow> unlink_fault env p \<Longrightarrow>
   Failed_to_delete p \<in> set (logged (cleanup_round env w))"
  using cleanup_tiles_fault_logged [of p "rglob_png w" "clock env" w env 0]
  by (simp add: cleanup_round_def Let_def log_line_def case_prod_beta)

text \<open>
  Claim C3. In one round of the cleanup, for every cache entry: if its age is above
  12 hours and the unlink does not raise, the entry is gone after the round; if its
  age is at most 12 hours, the entry is unchanged; if its age is above 12 hours and
  the unlink raises, the entry is unchanged and the failure is logged. This holds for
  each entry whatever happens at the others, so a failure stops nothing.
\<close>

theorem cleanup_sweep:
  assumes "cache_entry w p f"
  shows "(clock env - mtime f > CACHE_EXPIRY_SECONDS \<and> \<not> unlink_fault env p \<longrightarrow>
            map_of (files (cleanup_round env w)) p = None) \<and>
         (clock env - mtime f \<le> CACHE_EXPIRY_SECONDS \<longrightarrow>
            map_of (files (cleanup_round env w)) p = Some f) \<and>
         (clock env - mtime f > CACHE_EXPIRY_SECONDS \<and> unlink_fault env p \<longrightarrow>
            map_of (files (cleanup_round env w)) p = Some f \<and>
            Failed_to_delete p \<in> set (logged (cleanup_round env w)))"
proof -
  from assms have m: "map_of (files w) p = Some f" by (simp add: cache_entry_def)
  then have e: "expired (clock env) w p \<longleftrightarrow> clock env - mtime f > CACHE_EXPIRY_SECONDS"
    by (simp add: expired_def)
  from assms have r: "p \<in> set (rglob_png w)" by (rule cache_entry_rglob)
  show ?thesis
    using m e r cleanup_round_logged [of p w env] by (auto simp add: cleanup_round_files)
qed

theorem cleanup_sweep_witness:
  "cache_entry sweep_world [''tile_cache'', ''Temp_Tiles'', ''2025062818'', ''3'', ''2'', ''2.png'']
      \<lparr>content = ''old'', mtime = 0\<rparr> \<and>
   clock sweep_env - 0 > CACHE_EXPIRY_SECONDS \<and>
   \<not> unlink_fault sweep_env [''tile_cache'', ''Temp_Tiles'', ''2025062818'', ''3'', ''2'', ''2.png''] \<and>
   map_of (files (cleanup_round sweep_env sweep_world))
     [''tile_cache'', ''Temp_Tiles'', ''2025062818'', ''3'', ''2'', ''2.png''] = None \<and>
   cache_entry sweep_world [''tile_cache'', ''Temp_Tiles'', ''2025062818'', ''3'', ''2'', ''3.png'']
      \<lparr>content = ''young'', mtime = 12 * 3600\<rparr> \<and>
   clock sweep_env - 12 * 3600 \<le> CACHE_EXPIRY_SECONDS \<and>
   map_of (files (cleanup_round sweep_env sweep_world))
     [''tile_cache'', ''Temp_Tiles'', ''2025062818'', ''3'', ''2'', ''3.png'']
     = Some \<lparr>content = ''young'', mtime = 12 * 3600\<rparr> \<and>
   cache_entry sweep_world [''tile_cache'', ''Temp_Tiles'', ''2025062818'', ''3'', ''2'', ''4.png'']
      \<lparr>content = ''stuck'', mtime = 0\<rparr> \<and>
   unlink_fault sweep_env [''tile_cache'', ''Temp_Tiles'', ''2025062818'', ''3'', ''2'', ''4.png''] \<and>
   map_of (files (cleanup_round sweep_env sweep_world))
     [''tile_cache'', ''Temp_Tiles'', ''2025062818'', ''3'', ''2'', ''4.png'']
     = Some \<lparr>content = ''stuck'', mtime = 0\<rparr> \<and>
   Failed_to_delete [''tile_cache'', ''Temp_Tiles'', ''2025062818'', ''3'', ''2'', ''4.png'']
     \<in> set (logged (cleanup_round sweep_env sweep_world))"
proof -
  let ?a = "[''tile_cache'', ''Temp_Tiles'', ''2025062818'', ''3'', ''2'', ''2.png'']"
  let ?b = "[''tile_cache'', ''Temp_Tiles'', ''2025062818'', ''3'', ''2'', ''3.png'']"
  let ?c = "[''tile_cache'', ''Temp_Tiles'', ''2025062818'', ''3'', ''2'', ''4.png'']"
  have ea: "cache_entry sweep_world ?a \<lparr>content = ''old'', mtime = 0\<rparr>"
    by (simp add: cache_entry_def sweep_world_def CACHE_DIR_def ends_with_def)
  have eb: "cache_entry sweep_world ?b \<lparr>content = ''young'', mtime = 12 * 3600\<rparr>"
    by (simp add: cache_entry_def sweep_world_def CACHE_DIR_def ends_with_def)
  have ec: "cache_entry sweep_world ?c \<lparr>content = ''stuck'', mtime = 0\<rparr>"
    by (simp add: cache_entry_def sweep_world_def CACHE_DIR_def ends_with_def)
  have t: "clock sweep_env - 0 > CACHE_EXPIRY_SECONDS"
    "clock sweep_env - 12 * 3600 \<le> CACHE_EXPIRY_SECONDS"
    by (simp_all add: sweep_env_def CACHE_EXPIRY_SECONDS_def)
  have u: "\<not> unlink_fault sweep_env ?a" "unlink_fault sweep_env ?c"
    by (simp_all add: sweep_env_def)
  show ?thesis
    using ea eb ec t u cleanup_sweep [OF ea, of sweep_env] cleanup_sweep [OF eb, of sweep_env]
      cleanup_sweep [OF ec, of sweep_env]
    by simp
qed

subsection \<open>Placeholder fallback\<close>

text \<open>
  \<^verbatim>\<open>serve_blank_tile\<close> itself does what the fallback is meant to do. When the
  placeholder can be obtained, the response it builds is the placeholder with status
  200, whether or not the copy at the cache path can be written; and the copy is
  there afterwards when the directories and the write do not fail. When the
  placeholder cannot be obtained, the response has status 500 and no file changes.
\<close>

lemma serve_blank_tile_available:
  assumes "placeholder_bytes env w = Some b"
  shows "fst (serve_blank_tile env cp w) = Inr \<lparr>status_code = 200, body = b\<rparr> \<and>
         (\<not> mkdir_fault env (parent cp) \<and> \<not> write_fault env cp \<longrightarrow>
            open_rb (snd (serve_blank_tile env cp w)) cp = Some b)"
  using assms
  by (auto simp add: placeholder_bytes_def serve_blank_tile_def persist_blank_def fs_get_def
      mkdir_parents_def Let_def split: option.splits remote_result.splits if_splits)

lemma serve_blank_tile_unavailable:
  assumes "placeholder_bytes env w = None"
  shows "fst (serve_blank_tile env cp w) =
           Inr \<lparr>status_code = 500, body = ''Tile and fallback missing''\<rparr> \<and>
         files (snd (serve_blank_tile env cp w)) = files w"
  using assms
  by (auto simp add: placeholder_bytes_def serve_blank_tile_def fs_get_def log_line_def
      Let_def split: option.splits remote_result.splits if_splits)

text \<open>
  The GET handler applies \<^verbatim>\<open>await\<close> to that response. Whenever the layer is in the
  registry, the directories can be made, the tile is not cached and the remote fetch
  does not deliver it, the handler raises instead of answering.
\<close>

lemma get_fallback_raises:
  assumes "LAYER_PATHS (layer rq) = Some prefix"
    and "\<not> mkdir_fault env (parent (local_path_of rq (slippy_y_from_tms (zoom rq) (row rq))))"
    and "open_rb w (local_path_of rq (slippy_y_from_tms (zoom rq) (row rq))) = None"
    and "\<forall>b. remote_get env
               (s3key (tile_key prefix rq (slippy_y_from_tms (zoom rq) (row rq)))) \<noteq> RemoteOk b"
  shows "\<exists>e. fst (get_tile_with_timestamp env rq w) = Inl e"
  using assms
  by (auto simp add: get_tile_with_timestamp_def mkdir_parents_def fs_get_def await_response_def
      Let_def split: option.splits remote_result.splits prod.splits sum.splits)

text \<open>
  Claim C1, on the code. The scenario request arrives at an empty cache; the bucket
  holds the blank tile and not the requested tile. The claim says that the GET handler
  returns the placeholder bytes. It raises \<^verbatim>\<open>TypeError\<close>. By then the fallback has
  stored the blank tile and its copy at the cache path, so a second request, with the
  bucket out of reach, is answered from the cache with the placeholder bytes and adds
  no remote call.
\<close>

theorem fallback_raises_at_miss:
  "open_rb fresh_world sky_path = None \<and>
   get_tile_with_timestamp miss_env sky_request fresh_world = (Inl TypeError, poisoned_world) \<and>
   open_rb poisoned_world sky_path = Some ''blank'' \<and>
   get_tile_with_timestamp down_env sky_request poisoned_world =
     (Inr \<lparr>status_code = 200, body = ''blank''\<rparr>, poisoned_world)"
proof (intro conjI)
  show "open_rb fresh_world sky_path = None"
    by (simp add: open_rb_def fresh_world_def)
  show "get_tile_with_timestamp miss_env sky_request fresh_world = (Inl TypeError, poisoned_world)"
    by (simp add: get_tile_with_timestamp_def sky_layer sky_local_path sky_chain sky_tile_key
        mkdir_parents_def fs_get_def s3key_def BUCKET_def blank_tile_key_def blank_path
        serve_blank_tile_def persist_blank_def await_response_def log_line_def Let_def
        miss_env_def no_faults_def open_rb_def write_file_def fresh_world_def CACHE_DIR_def
        poisoned_world_def sky_path_def parent_def dir_chain_def
        upt_rec [of _ "Suc _"] upt_rec [of _ "numeral _"])
  show "open_rb poisoned_world sky_path = Some ''blank''"
    by (simp add: open_rb_def poisoned_world_def sky_path_def)
  show "get_tile_with_timestamp down_env sky_request poisoned_world =
     (Inr \<lparr>status_code = 200, body = ''blank''\<rparr>, poisoned_world)"
    by (simp add: get_tile_with_timestamp_def sky_layer sky_local_path sky_chain
        mkdir_parents_def down_env_def no_faults_def open_rb_def poisoned_world_def sky_path_def
        Let_def parent_def dir_chain_def upt_rec [of _ "Suc _"] upt_rec [of _ "numeral _"])
qed

subsection \<open>Zoom and row are not checked\<close>

lemma neg_local_path:
  "local_path_of neg_request (slippy_y_from_tms (zoom neg_request) (row neg_request)) =
     [''tile_cache'', ''SkyCover_Tiles'', ''2025062818'', ''-1'', ''0'', ''-0.5.png'']"
  by (simp add: float_str_half neg_request_def slippy_y_from_tms_def local_path_of_def
      joinpath_def path_parts_def str_int_def str_nat.simps digit_char_def CACHE_DIR_def)

lemma neg_key:
  "CanonicalKey neg_request =
     Some ''data-layer-tiles/SkyCover_Tiles/2025062818/-1/0/-0.5.png''"
  by (simp add: float_str_half neg_request_def CanonicalKey_def LAYER_PATHS_def
      slippy_y_from_tms_def tile_key_def str_int_def str_nat.simps digit_char_def)

lemma far_key:
  "CanonicalKey far_request = Some ''data-layer-tiles/SkyCover_Tiles/2025062818/3/2/-1.png''"
  by (simp add: far_request_def CanonicalKey_def LAYER_PATHS_def
      slippy_y_from_tms_def tile_key_def str_int_def str_nat.simps digit_char_def)

lemma far_local_path:
  "local_path_of far_request (slippy_y_from_tms (zoom far_request) (row far_request)) =
     [''tile_cache'', ''SkyCover_Tiles'', ''2025062818'', ''3'', ''2'', ''-1.png'']"
  by (simp add: far_request_def slippy_y_from_tms_def local_path_of_def
      joinpath_def path_parts_def str_int_def str_nat.simps digit_char_def CACHE_DIR_def)

lemma get_stores_remote_tile:
  assumes "LAYER_PATHS (layer rq) = Some prefix"
  shows "fst (get_tile_with_timestamp (no_faults (\<lambda>k. RemoteOk b) e t) rq fresh_world) =
           Inr \<lparr>status_code = 200, body = b\<rparr> \<and>
         open_rb (snd (get_tile_with_timestamp (no_faults (\<lambda>k. RemoteOk b) e t) rq fresh_world))
           (local_path_of rq (slippy_y_from_tms (zoom rq) (row rq))) = Some b"
  using assms
  by (simp add: get_tile_with_timestamp_def mkdir_parents_def fs_get_def no_faults_def
      fresh_world_def Let_def open_rb_def write_file_def)

text \<open>
  Claim C10. Neither handler checks zoom or row. With \<open>z = -1\<close> and \<open>y = 0\<close> the
  flipped row is the float \<open>-0.5\<close>, and it is written into the local path and into
  the key; the HEAD handler asks the remote store for that key and answers 200 when it
  is there, and the GET handler fetches it, stores it at that path and answers 200.
  For a zoom \<open>z \<ge> 0\<close> and a row outside \<open>[0, 2\<^sup>z)\<close> the flipped row is outside that
  range too; with \<open>z = 3\<close> and \<open>y = 8\<close> it is \<open>-1\<close>, and the GET handler fetches and
  stores the tile under that row.
\<close>

theorem row_flip_unchecked:
  "slippy_y_from_tms (- 1) 0 = PyFloat (- (1 / 2)) \<and>
   local_path_of neg_request (slippy_y_from_tms (zoom neg_request) (row neg_request)) =
     [''tile_cache'', ''SkyCover_Tiles'', ''2025062818'', ''-1'', ''0'', ''-0.5.png''] \<and>
   CanonicalKey neg_request =
     Some ''data-layer-tiles/SkyCover_Tiles/2025062818/-1/0/-0.5.png'' \<and>
   head_tile_with_timestamp (no_faults (\<lambda>k. RemoteMiss) (\<lambda>k. Some True) 0) neg_request fresh_world =
     (\<lparr>status_code = 200, body = []\<rparr>,
      fresh_world\<lparr>remote_calls :=
        [Exists ''optimal-stargazing-locator/data-layer-tiles/SkyCover_Tiles/2025062818/-1/0/-0.5.png'']\<rparr>) \<and>
   fst (get_tile_with_timestamp (no_faults (\<lambda>k. RemoteOk ''tile'') (\<lambda>k. None) 0)
          neg_request fresh_world) = Inr \<lparr>status_code = 200, body = ''tile''\<rparr> \<and>
   open_rb (snd (get_tile_with_timestamp (no_faults (\<lambda>k. RemoteOk ''tile'') (\<lambda>k. None) 0)
          neg_request fresh_world))
     [''tile_cache'', ''SkyCover_Tiles'', ''2025062818'', ''-1'', ''0'', ''-0.5.png''] = Some ''tile'' \<and>
   (\<forall>zz r. 0 \<le> zz \<longrightarrow> r < 0 \<or> 2 ^ nat zz \<le> r \<longrightarrow>
      (\<exists>r'. slippy_y_from_tms zz r = PyInt r' \<and> (r' < 0 \<or> 2 ^ nat zz \<le> r'))) \<and>
   CanonicalKey far_request = Some ''data-layer-tiles/SkyCover_Tiles/2025062818/3/2/-1.png'' \<and>
   fst (get_tile_with_timestamp (no_faults (\<lambda>k. RemoteOk ''tile'') (\<lambda>k. None) 0)
          far_request fresh_world) = Inr \<lparr>status_code = 200, body = ''tile''\<rparr> \<and>
   open_rb (snd (get_tile_with_timestamp (no_faults (\<lambda>k. RemoteOk ''tile'') (\<lambda>k. None) 0)
          far_request fresh_world))
     [''tile_cache'', ''SkyCover_Tiles'', ''2025062818'', ''3'', ''2'', ''-1.png''] = Some ''tile''"
proof -
  have ln: "LAYER_PATHS (layer neg_request) = Some ''data-layer-tiles/SkyCover_Tiles''"
    by (simp add: neg_request_def LAYER_PATHS_def)
  have lf: "LAYER_PATHS (layer far_request) = Some ''data-layer-tiles/SkyCover_Tiles''"
    by (simp add: far_request_def LAYER_PATHS_def)
  have a: "slippy_y_from_tms (- 1) 0 = PyFloat (- (1 / 2))"
    by (simp add: slippy_y_from_tms_def)
  have k: "tile_key ''data-layer-tiles/SkyCover_Tiles'' neg_request
             (slippy_y_from_tms (zoom neg_request) (row neg_request)) =
           ''data-layer-tiles/SkyCover_Tiles/2025062818/-1/0/-0.5.png''"
    using neg_key by (simp add: CanonicalKey_def ln)
  have h: "head_tile_with_timestamp (no_faults (\<lambda>k. RemoteMiss) (\<lambda>k. Some True) 0)
             neg_request fresh_world =
     (\<lparr>status_code = 200, body = []\<rparr>,
      fresh_world\<lparr>remote_calls :=
        [Exists ''optimal-stargazing-locator/data-layer-tiles/SkyCover_Tiles/2025062818/-1/0/-0.5.png'']\<rparr>)"
    by (simp add: head_tile_with_timestamp_def ln neg_local_path k fs_exists_def s3key_def
        BUCKET_def open_rb_def fresh_world_def no_faults_def Let_def)
  have r: "\<forall>zz r. 0 \<le> zz \<longrightarrow> r < 0 \<or> 2 ^ nat zz \<le> r \<longrightarrow>
      (\<exists>r'. slippy_y_from_tms zz r = PyInt r' \<and> (r' < 0 \<or> 2 ^ nat zz \<le> r'))"
    by (auto simp add: slippy_y_from_tms_def)
  show ?thesis
    using a h r neg_key far_key neg_local_path far_local_path
      get_stores_remote_tile [OF ln, of "''tile''" "\<lambda>k. None" 0]
      get_stores_remote_tile [OF lf, of "''tile''" "\<lambda>k. None" 0]
    by simp
qed

theorem row_flip_unchecked_witness:
  "(0::int) \<le> 3 \<and> (2::int) ^ nat 3 \<le> 8 \<and> slippy_y_from_tms 3 8 = PyInt (- 1) \<and>
   (0::int) \<le> 3 \<and> (- 1::int) < 0 \<and> slippy_y_from_tms 3 (- 1) = PyInt 8"
proof -
  from row_flip_unchecked
  have r: "\<forall>zz r. 0 \<le> zz \<longrightarrow> r < 0 \<or> 2 ^ nat zz \<le> r \<longrightarrow>
      (\<exists>r'. slippy_y_from_tms zz r = PyInt r' \<and> (r' < 0 \<or> 2 ^ nat zz \<le> r'))"
    by blast
  have "\<exists>r'. slippy_y_from_tms 3 8 = PyInt r' \<and> (r' < 0 \<or> 2 ^ nat 3 \<le> r')"
    using r [rule_format, of 3 8] by simp
  moreover have "\<exists>r'. slippy_y_from_tms 3 (- 1) = PyInt r' \<and> (r' < 0 \<or> 2 ^ nat 3 \<le> r')"
    using r [rule_format, of 3 "- 1"] by simp
  ultimately show ?thesis
    by (simp add: slippy_y_from_tms_def)
qed

end
